theory Spec2Isabelle
  imports Main
begin

section \<open>Mesh element model\<close>

text \<open>
  Handles of vertices and cells are opaque identities inside one triangulation data
  structure. The vertex and cell bases (\<^verbatim>\<open>Remeshing_vertex_base.h\<close>,
  \<^verbatim>\<open>Remeshing_cell_base.h\<close>) are included by
  \<^verbatim>\<open>Remeshing_triangulation_3.h\<close>; the records below hold the fields that the
  converters of that header read and write. The point type and the type of the user
  info are type parameters, as they are template parameters in the source.
\<close>

type_synonym handle = nat

record ('p, 'i) vertex =
  v_point :: 'p
  v_time_stamp :: int
  v_dimension :: int
  v_info :: 'i

record ('i, 'ic) cell =
  c_vertices :: "handle list"
  c_neighbors :: "handle option list"
  c_subdomain_index :: int
  c_info :: 'i
  c_input_cell :: 'ic
  c_time_stamp :: int

section \<open>Default\_remeshing\_visitor\<close>

text \<open>
  The class has no data member; its state is the one-element record. Each hook is a
  member template with an empty body. A call is modelled on the whole configuration it
  could touch: the visitor object and the arguments it receives.
\<close>

record Default_remeshing_visitor =
  visitor_unit :: unit

datatype ('tr, 'e, 'vh, 'co, 'cn, 'ch) hook_call =
    Before_split 'tr 'e
  | After_split 'tr 'vh
  | After_add_cell 'co 'cn
  | Before_flip 'ch
  | After_flip 'ch

definition before_split ::
  "Default_remeshing_visitor \<times> 'tr \<times> 'e \<Rightarrow> Default_remeshing_visitor \<times> 'tr \<times> 'e" where
  "before_split s = (case s of (vis, tr, e) \<Rightarrow> (vis, tr, e))"

definition after_split ::
  "Default_remeshing_visitor \<times> 'tr \<times> 'vh \<Rightarrow> Default_remeshing_visitor \<times> 'tr \<times> 'vh" where
  "after_split s = (case s of (vis, tr, new_v) \<Rightarrow> (vis, tr, new_v))"

definition after_add_cell ::
  "Default_remeshing_visitor \<times> 'co \<times> 'cn \<Rightarrow> Default_remeshing_visitor \<times> 'co \<times> 'cn" where
  "after_add_cell s = (case s of (vis, co, cn) \<Rightarrow> (vis, co, cn))"

definition before_flip ::
  "Default_remeshing_visitor \<times> 'ch \<Rightarrow> Default_remeshing_visitor \<times> 'ch" where
  "before_flip s = (case s of (vis, c) \<Rightarrow> (vis, c))"

definition after_flip ::
  "Default_remeshing_visitor \<times> 'ch \<Rightarrow> Default_remeshing_visitor \<times> 'ch" where
  "after_flip s = (case s of (vis, c) \<Rightarrow> (vis, c))"

text \<open>
  The five member templates are all the members of the class: a call of the visitor is one
  of the five constructors of \<open>hook_call\<close>, dispatched to the member of that name.
\<close>

definition invoke ::
  "Default_remeshing_visitor \<Rightarrow> ('tr, 'e, 'vh, 'co, 'cn, 'ch) hook_call \<Rightarrow>
   Default_remeshing_visitor \<times> ('tr, 'e, 'vh, 'co, 'cn, 'ch) hook_call" where
  "invoke vis call =
     (case call of
        Before_split tr e \<Rightarrow>
          (case before_split (vis, tr, e) of (vis', tr', e') \<Rightarrow> (vis', Before_split tr' e'))
      | After_split tr new_v \<Rightarrow>
          (case after_split (vis, tr, new_v) of (vis', tr', v') \<Rightarrow> (vis', After_split tr' v'))
      | After_add_cell co cn \<Rightarrow>
          (case after_add_cell (vis, co, cn) of
             (vis', co', cn') \<Rightarrow> (vis', After_add_cell co' cn'))
      | Before_flip c \<Rightarrow>
          (case before_flip (vis, c) of (vis', c') \<Rightarrow> (vis', Before_flip c'))
      | After_flip c \<Rightarrow>
          (case after_flip (vis, c) of (vis', c') \<Rightarrow> (vis', After_flip c')))"

section \<open>The template Remeshing\_triangulation\_3 at the level of types\<close>

text \<open>
  Template instantiation is a function from type arguments to a type expression.
  \<^verbatim>\<open>Triangulation_data_structure_3\<close> is declared in a header of its own with three
  parameters; the base-class list of \<^verbatim>\<open>Remeshing_triangulation_3\<close> passes two
  arguments, so the third one takes the default of that declaration, here the parameter
  \<open>tds_default\<close>.
\<close>

datatype concurrency_tag = Sequential_tag | Parallel_tag

datatype ('k, 'b) base_type = Remeshing_vertex_base 'k 'b | Remeshing_cell_base 'k 'b

datatype ('k, 'vb, 'cb) tds_type =
  Triangulation_data_structure_3 "('k, 'vb) base_type" "('k, 'cb) base_type" concurrency_tag

datatype ('k, 'vb, 'cb) triangulation_type =
  Triangulation_3 'k "('k, 'vb, 'cb) tds_type"

definition RVb :: "'k \<Rightarrow> 'vb \<Rightarrow> ('k, 'vb) base_type" where
  "RVb K Vb = Remeshing_vertex_base K Vb"

definition RCb :: "'k \<Rightarrow> 'cb \<Rightarrow> ('k, 'cb) base_type" where
  "RCb K Cb = Remeshing_cell_base K Cb"

definition base_class ::
  "concurrency_tag \<Rightarrow> 'k \<Rightarrow> concurrency_tag \<Rightarrow> 'cb \<Rightarrow> 'vb \<Rightarrow> ('k, 'vb, 'cb) triangulation_type" where
  "base_class tds_default K Concurrency_tag Cb Vb =
     Triangulation_3 K
       (Triangulation_data_structure_3 (Remeshing_vertex_base K Vb) (Remeshing_cell_base K Cb)
          tds_default)"

definition Tds ::
  "'k \<Rightarrow> concurrency_tag \<Rightarrow> 'cb \<Rightarrow> 'vb \<Rightarrow> ('k, 'vb, 'cb) tds_type" where
  "Tds K Concurrency_tag Cb Vb =
     Triangulation_data_structure_3 (RVb K Vb) (RCb K Cb) Concurrency_tag"

definition Self ::
  "'k \<Rightarrow> concurrency_tag \<Rightarrow> 'cb \<Rightarrow> 'vb \<Rightarrow> ('k, 'vb, 'cb) triangulation_type" where
  "Self K Concurrency_tag Cb Vb = Triangulation_3 K (Tds K Concurrency_tag Cb Vb)"

fun tds_of :: "('k, 'vb, 'cb) triangulation_type \<Rightarrow> ('k, 'vb, 'cb) tds_type" where
  "tds_of (Triangulation_3 K T) = T"

section \<open>Conversion policy\<close>

text \<open>
  A converter is a function object with two call operators: one creates the target
  element from the source element, one updates an existing target element.
\<close>

record ('a, 'b) converter =
  create :: "'a \<Rightarrow> 'b"
  update :: "'a \<Rightarrow> 'b \<Rightarrow> 'b"

subsection \<open>The converters of namespace internal (the fresh variant)\<close>

text \<open>
  \<open>point\<close>, \<open>conv\<close> and \<open>Tgt_point\<close> are the three functions applied to the source
  point, in this order: the accessor \<^verbatim>\<open>point(...)\<close>, the
  \<^verbatim>\<open>Cartesian_converter\<close> of the two kernels, and the constructor of the target's
  point type. All three belong to the geometric kernel. \<open>v0\<close> is the default-constructed
  target vertex (\<^verbatim>\<open>typename TDS_tgt::Vertex v_tgt;\<close>).
\<close>

definition internal_Vertex_converter_create ::
  "('ps \<Rightarrow> 'pb) \<Rightarrow> ('pb \<Rightarrow> 'qb) \<Rightarrow> ('qb \<Rightarrow> 'q) \<Rightarrow> ('q, 'j) vertex \<Rightarrow>
   ('ps, 'i) vertex \<Rightarrow> ('q, 'j) vertex" where
  "internal_Vertex_converter_create point conv Tgt_point v0 v_src =
     (let v_tgt = v0;
          v_tgt = v_tgt\<lparr>v_point := Tgt_point (conv (point (v_point v_src)))\<rparr>;
          v_tgt = v_tgt\<lparr>v_time_stamp := - 1\<rparr>;
          v_tgt = v_tgt\<lparr>v_dimension := 3\<rparr>
      in v_tgt)"

definition internal_Vertex_converter_update ::
  "('ps \<Rightarrow> 'pb) \<Rightarrow> ('pb \<Rightarrow> 'qb) \<Rightarrow> ('qb \<Rightarrow> 'q) \<Rightarrow>
   ('ps, 'i) vertex \<Rightarrow> ('q, 'j) vertex \<Rightarrow> ('q, 'j) vertex" where
  "internal_Vertex_converter_update point conv Tgt_point v_src v_tgt =
     (let v_tgt = v_tgt\<lparr>v_point := Tgt_point (conv (point (v_point v_src)))\<rparr>;
          v_tgt = v_tgt\<lparr>v_dimension := 3\<rparr>
      in v_tgt)"

definition internal_Vertex_converter ::
  "('ps \<Rightarrow> 'pb) \<Rightarrow> ('pb \<Rightarrow> 'qb) \<Rightarrow> ('qb \<Rightarrow> 'q) \<Rightarrow> ('q, 'j) vertex \<Rightarrow>
   (('ps, 'i) vertex, ('q, 'j) vertex) converter" where
  "internal_Vertex_converter point conv Tgt_point v0 =
     \<lparr>create = internal_Vertex_converter_create point conv Tgt_point v0,
      update = internal_Vertex_converter_update point conv Tgt_point\<rparr>"

text \<open>\<open>c0\<close> is the default-constructed target cell (\<^verbatim>\<open>typename TDS_tgt::Cell c_tgt;\<close>).\<close>

definition internal_Cell_converter_create ::
  "('j, 'jc) cell \<Rightarrow> ('i, 'ic) cell \<Rightarrow> ('j, 'jc) cell" where
  "internal_Cell_converter_create c0 c_src =
     (let c_tgt = c0;
          c_tgt = c_tgt\<lparr>c_subdomain_index := c_subdomain_index c_src\<rparr>;
          c_tgt = c_tgt\<lparr>c_time_stamp := - 1\<rparr>
      in c_tgt)"

definition internal_Cell_converter_update ::
  "('i, 'ic) cell \<Rightarrow> ('j, 'jc) cell \<Rightarrow> ('j, 'jc) cell" where
  "internal_Cell_converter_update c_src c_tgt =
     c_tgt\<lparr>c_subdomain_index := c_subdomain_index c_src\<rparr>"

definition internal_Cell_converter ::
  "('j, 'jc) cell \<Rightarrow> (('i, 'ic) cell, ('j, 'jc) cell) converter" where
  "internal_Cell_converter c0 =
     \<lparr>create = internal_Cell_converter_create c0,
      update = internal_Cell_converter_update\<rparr>"

subsection \<open>The converters of the enclosing namespace (the preserving variant)\<close>

text \<open>
  Here the source vertex's info is passed to \<^verbatim>\<open>set_dimension\<close>, so the info type of
  the source is the integer type of the dimension tag.
\<close>

definition Vertex_converter_create ::
  "('p \<Rightarrow> 'q) \<Rightarrow> ('q, 'j) vertex \<Rightarrow> ('p, int) vertex \<Rightarrow> ('q, 'j) vertex" where
  "Vertex_converter_create conv v0 v_src =
     (let v_tgt = v0;
          v_tgt = v_tgt\<lparr>v_point := conv (v_point v_src)\<rparr>;
          v_tgt = v_tgt\<lparr>v_time_stamp := - 1\<rparr>;
          v_tgt = v_tgt\<lparr>v_dimension := v_info v_src\<rparr>
      in v_tgt)"

definition Vertex_converter_update ::
  "('p \<Rightarrow> 'q) \<Rightarrow> ('p, int) vertex \<Rightarrow> ('q, 'j) vertex \<Rightarrow> ('q, 'j) vertex" where
  "Vertex_converter_update conv v_src v_tgt =
     (let v_tgt = v_tgt\<lparr>v_point := conv (v_point v_src)\<rparr>;
          v_tgt = v_tgt\<lparr>v_dimension := v_info v_src\<rparr>
      in v_tgt)"

definition Vertex_converter ::
  "('p \<Rightarrow> 'q) \<Rightarrow> ('q, 'j) vertex \<Rightarrow> (('p, int) vertex, ('q, 'j) vertex) converter" where
  "Vertex_converter conv v0 =
     \<lparr>create = Vertex_converter_create conv v0, update = Vertex_converter_update conv\<rparr>"

text \<open>
  The target cell stores the source cell itself in \<^verbatim>\<open>input_cell()\<close>, so the type of
  that field of the target is the source's cell type.
\<close>

definition Cell_converter_create ::
  "('i, ('i, 'ic) cell) cell \<Rightarrow> ('i, 'ic) cell \<Rightarrow> ('i, ('i, 'ic) cell) cell" where
  "Cell_converter_create c0 c_src =
     (let c_tgt = c0;
          c_tgt = c_tgt\<lparr>c_info := c_info c_src\<rparr>;
          c_tgt = c_tgt\<lparr>c_input_cell := c_src\<rparr>;
          c_tgt = c_tgt\<lparr>c_time_stamp := - 1\<rparr>
      in c_tgt)"

definition Cell_converter_update ::
  "('i, 'ic) cell \<Rightarrow> ('i, ('i, 'ic) cell) cell \<Rightarrow> ('i, ('i, 'ic) cell) cell" where
  "Cell_converter_update c_src c_tgt =
     (let c_tgt = c_tgt\<lparr>c_info := c_info c_src\<rparr>;
          c_tgt = c_tgt\<lparr>c_input_cell := c_src\<rparr>
      in c_tgt)"

definition Cell_converter ::
  "('i, ('i, 'ic) cell) cell \<Rightarrow> (('i, 'ic) cell, ('i, ('i, 'ic) cell) cell) converter" where
  "Cell_converter c0 =
     \<lparr>create = Cell_converter_create c0, update = Cell_converter_update\<rparr>"

section \<open>Mesh clone engine\<close>

text \<open>
  \<^verbatim>\<open>build_remeshing_triangulation\<close> and \<^verbatim>\<open>build_from_remeshing_triangulation\<close>
  call three members of the triangulation and of its data structure:
  \<^verbatim>\<open>clear\<close>, \<^verbatim>\<open>copy_tds\<close> and \<^verbatim>\<open>set_infinite_vertex\<close>. They are declared in
  \<^verbatim>\<open>Triangulation_3.h\<close> and \<^verbatim>\<open>Triangulation_data_structure_3.h\<close>, which the header
  only includes.
\<close>

text \<open>
  Modelled from the spec: the error a clone signals on a source that is not well formed
  (a structural inconsistency); the class of the error is missing.
\<close>

datatype error = Structural_inconsistency

text \<open>
  Modelled from the spec: the underlying mesh storage, which is missing. It owns the
  vertices and the cells, each under its handle, in the order of their creation.
\<close>

record ('p, 'i, 'j, 'ic) tds =
  tds_vertices :: "(handle \<times> ('p, 'i) vertex) list"
  tds_cells :: "(handle \<times> ('j, 'ic) cell) list"

text \<open>
  Modelled from the spec: a triangulation (class \<^verbatim>\<open>Triangulation_3\<close>, missing) is a
  data structure with one distinguished vertex, the infinite vertex; a default handle is
  \<open>None\<close>. \<^verbatim>\<open>Remeshing_triangulation_3\<close> derives from it and adds the member
  \<^verbatim>\<open>m_visitor\<close>.
\<close>

record ('p, 'i, 'j, 'ic) triangulation =
  tr_tds :: "('p, 'i, 'j, 'ic) tds"
  tr_infinite :: "handle option"

record ('p, 'i, 'j, 'ic, 'vis) remeshing_triangulation = "('p, 'i, 'j, 'ic) triangulation" +
  m_visitor :: 'vis

definition visitor ::
  "('p, 'i, 'j, 'ic, 'vis) remeshing_triangulation \<Rightarrow> 'vis" where
  "visitor t = m_visitor t"

definition vertex_handles :: "('p, 'i, 'j, 'ic) tds \<Rightarrow> handle list" where
  "vertex_handles t = map fst (tds_vertices t)"

definition cell_handles :: "('p, 'i, 'j, 'ic) tds \<Rightarrow> handle list" where
  "cell_handles t = map fst (tds_cells t)"

subsection \<open>Well-formed meshes\<close>

text \<open>
  Modelled from the spec: the facet of a cell opposite its \<open>i\<close>-th vertex, used by the
  invariants of the data model.
\<close>

definition facet :: "('j, 'ic) cell \<Rightarrow> nat \<Rightarrow> handle set" where
  "facet c i = set (c_vertices c) - {c_vertices c ! i}"

text \<open>
  Modelled from the spec: a cell refers to exactly 4 vertices of the mesh, pairwise
  distinct when the cell is finite (the infinite vertex \<open>inf_v\<close> is not among them), and
  has 4 neighbor slots (one opposite each vertex), each empty or holding a cell of the
  mesh.
\<close>

definition cell_refs_ok ::
  "handle \<Rightarrow> handle list \<Rightarrow> handle list \<Rightarrow> ('j, 'ic) cell \<Rightarrow> bool" where
  "cell_refs_ok inf_v vhs chs c \<longleftrightarrow>
     length (c_vertices c) = 4 \<and>
     (if inf_v \<in> set (c_vertices c) then True else distinct (c_vertices c)) \<and>
     list_all (\<lambda>h. h \<in> set vhs) (c_vertices c) \<and>
     length (c_neighbors c) = 4 \<and>
     list_all (\<lambda>n. case n of None \<Rightarrow> True | Some k \<Rightarrow> k \<in> set chs) (c_neighbors c)"

text \<open>
  Modelled from the spec: adjacency is symmetric. If cell \<open>c\<close> (handle \<open>h\<close>) lists \<open>k\<close> as
  its neighbor opposite vertex \<open>i\<close>, the cell \<open>d\<close> of handle \<open>k\<close> lists \<open>h\<close> in the slot
  opposite the same facet.
\<close>

definition adjacency_symmetric :: "(handle \<times> ('j, 'ic) cell) list \<Rightarrow> bool" where
  "adjacency_symmetric cs \<longleftrightarrow>
     list_all (\<lambda>(h, c). list_all (\<lambda>i.
        case c_neighbors c ! i of
          None \<Rightarrow> True
        | Some k \<Rightarrow> (case map_of cs k of
             None \<Rightarrow> False
           | Some d \<Rightarrow> list_ex (\<lambda>j. c_neighbors d ! j = Some h \<and> facet d j = facet c i) [0..<4]))
       [0..<4]) cs"

text \<open>Modelled from the spec: each facet is shared by at most 2 cells.\<close>

definition facets_shared_by_at_most_two :: "(handle \<times> ('j, 'ic) cell) list \<Rightarrow> bool" where
  "facets_shared_by_at_most_two cs \<longleftrightarrow>
     list_all (\<lambda>(h, c). list_all (\<lambda>i.
        length (filter (\<lambda>(k, d). facet c i \<subseteq> set (c_vertices d)) cs) \<le> 2) [0..<4]) cs"

text \<open>Modelled from the spec: every vertex is incident to at least one cell.\<close>

definition every_vertex_incident :: "('p, 'i, 'j, 'ic) tds \<Rightarrow> bool" where
  "every_vertex_incident t \<longleftrightarrow>
     list_all (\<lambda>h. list_ex (\<lambda>(k, c). h \<in> set (c_vertices c)) (tds_cells t)) (vertex_handles t)"

text \<open>
  Modelled from the spec: the check of the invariants of the data model that the clone
  makes on its source. Handles identify one element each, the infinite vertex is a vertex
  of the mesh, and the four combinatorial invariants above hold. (That the infinite cells
  form a fan around the boundary is a statement about the embedding in space and is not
  part of this combinatorial check.)
\<close>

definition well_formed :: "('p, 'i, 'j, 'ic) tds \<Rightarrow> handle option \<Rightarrow> bool" where
  "well_formed t vert \<longleftrightarrow>
     distinct (vertex_handles t) \<and> distinct (cell_handles t) \<and>
     (case vert of
        None \<Rightarrow> False
      | Some inf_v \<Rightarrow> inf_v \<in> set (vertex_handles t) \<and>
          list_all (\<lambda>(h, c). cell_refs_ok inf_v (vertex_handles t) (cell_handles t) c)
            (tds_cells t)) \<and>
     adjacency_symmetric (tds_cells t) \<and>
     facets_shared_by_at_most_two (tds_cells t) \<and>
     every_vertex_incident t"

subsection \<open>Storage primitives and the copy\<close>

text \<open>
  Modelled from the spec: the storage hands out handles that are not in use. \<open>fresh\<close> is
  the first handle above all used ones.
\<close>

fun fresh :: "handle list \<Rightarrow> handle" where
  "fresh [] = 0"
| "fresh (h # hs) = max (Suc h) (fresh hs)"

text \<open>
  Modelled from the spec: the correspondence built by the clone, from the handles \<open>hs\<close> of
  the source elements to the handles of the elements created for them, one new element for
  each, in the order of the source.
\<close>

definition alloc :: "handle list \<Rightarrow> handle list \<Rightarrow> handle \<rightharpoonup> handle" where
  "alloc used hs = map_of (zip hs [fresh used ..< fresh used + length hs])"

text \<open>
  Modelled from the spec: \<^verbatim>\<open>copy_tds\<close> (missing), the generic clone. A source that is
  not well formed is reported as a structural inconsistency. Otherwise every source vertex
  yields one target vertex through the vertex converter's create operation and every
  source cell one target cell through the cell converter's create operation; the vertex
  and neighbor references of each target cell are those of its source cell under the
  correspondence of handles. The result is the handle that corresponds to \<open>vert\<close>, and
  the data structure with the new elements.
\<close>

definition copy_tds ::
  "(('p, 'i) vertex, ('q, 'k) vertex) converter \<Rightarrow> (('j, 'ic) cell, ('l, 'jc) cell) converter \<Rightarrow>
   ('p, 'i, 'j, 'ic) tds \<Rightarrow> handle option \<Rightarrow> ('q, 'k, 'l, 'jc) tds \<Rightarrow>
   error + (handle option \<times> ('q, 'k, 'l, 'jc) tds)" where
  "copy_tds convert_vertex convert_cell src vert tgt =
     (if \<not> well_formed src vert then Inl Structural_inconsistency
      else
        let V = alloc (vertex_handles tgt) (vertex_handles src);
            F = alloc (cell_handles tgt) (cell_handles src);
            new_vertices = map (\<lambda>(h, v). (the (V h), create convert_vertex v)) (tds_vertices src);
            new_cells = map (\<lambda>(h, c). (the (F h),
                (create convert_cell c)\<lparr>c_vertices := map (\<lambda>u. the (V u)) (c_vertices c),
                    c_neighbors := map (map_option (\<lambda>n. the (F n))) (c_neighbors c)\<rparr>))
              (tds_cells src)
        in Inr (Option.bind vert V,
                tgt\<lparr>tds_vertices := tds_vertices tgt @ new_vertices,
                    tds_cells := tds_cells tgt @ new_cells\<rparr>))"

text \<open>Modelled from the spec: the storage with no vertex and no cell.\<close>

definition empty_tds :: "('p, 'i, 'j, 'ic) tds" where
  "empty_tds = \<lparr>tds_vertices = [], tds_cells = []\<rparr>"

text \<open>
  Modelled from the spec: \<^verbatim>\<open>clear\<close> (missing), the bulk clear of a mesh: all its
  vertices and cells are removed.
\<close>

definition clear ::
  "('p, 'i, 'j, 'ic, 'z) triangulation_scheme \<Rightarrow> ('p, 'i, 'j, 'ic, 'z) triangulation_scheme" where
  "clear t = t\<lparr>tr_tds := empty_tds, tr_infinite := None\<rparr>"

text \<open>
  Modelled from the spec: \<^verbatim>\<open>set_infinite_vertex\<close> (missing) makes the given vertex the
  infinite vertex of the mesh.
\<close>

definition set_infinite_vertex ::
  "handle option \<Rightarrow> ('p, 'i, 'j, 'ic, 'z) triangulation_scheme \<Rightarrow>
   ('p, 'i, 'j, 'ic, 'z) triangulation_scheme" where
  "set_infinite_vertex h t = t\<lparr>tr_infinite := h\<rparr>"

subsection \<open>The two clone functions of the header\<close>

text \<open>
  Both functions clear the target, copy the source's data structure into the target's
  with the converters of namespace internal, and make the vertex returned by the copy the
  target's infinite vertex. The target is passed by reference: the result is the target
  after the call, together with the error of a failed copy, which leaves the target as
  the clear left it.
\<close>

definition build_remeshing_triangulation ::
  "('ps \<Rightarrow> 'pb) \<Rightarrow> ('pb \<Rightarrow> 'qb) \<Rightarrow> ('qb \<Rightarrow> 'q) \<Rightarrow> ('q, 'k) vertex \<Rightarrow> ('l, 'jc) cell \<Rightarrow>
   ('ps, 'i, 'j, 'ic, 'z) triangulation_scheme \<Rightarrow> ('q, 'k, 'l, 'jc, 'vis) remeshing_triangulation \<Rightarrow>
   error option \<times> ('q, 'k, 'l, 'jc, 'vis) remeshing_triangulation" where
  "build_remeshing_triangulation point conv Tgt_point v0 c0 tr remeshing_tr =
     (let remeshing_tr = clear remeshing_tr in
      case copy_tds (internal_Vertex_converter point conv Tgt_point v0) (internal_Cell_converter c0)
             (tr_tds tr) (tr_infinite tr) (tr_tds remeshing_tr) of
        Inl e \<Rightarrow> (Some e, remeshing_tr)
      | Inr (h, tds') \<Rightarrow> (None, set_infinite_vertex h (remeshing_tr\<lparr>tr_tds := tds'\<rparr>)))"

definition build_from_remeshing_triangulation ::
  "('ps \<Rightarrow> 'pb) \<Rightarrow> ('pb \<Rightarrow> 'qb) \<Rightarrow> ('qb \<Rightarrow> 'q) \<Rightarrow> ('q, 'k) vertex \<Rightarrow> ('l, 'jc) cell \<Rightarrow>
   ('ps, 'i, 'j, 'ic, 'vis) remeshing_triangulation \<Rightarrow> ('q, 'k, 'l, 'jc, 'z) triangulation_scheme \<Rightarrow>
   error option \<times> ('q, 'k, 'l, 'jc, 'z) triangulation_scheme" where
  "build_from_remeshing_triangulation point conv Tgt_point v0 c0 remeshing_tr tr =
     (let tr = clear tr in
      case copy_tds (internal_Vertex_converter point conv Tgt_point v0) (internal_Cell_converter c0)
             (tr_tds remeshing_tr) (tr_infinite remeshing_tr) (tr_tds tr) of
        Inl e \<Rightarrow> (Some e, tr)
      | Inr (h, tds') \<Rightarrow> (None, set_infinite_vertex h (tr\<lparr>tr_tds := tds'\<rparr>)))"

subsection \<open>Notions used to state the properties of a clone\<close>

text \<open>
  The correspondence of a clone into a cleared target: the handle created for the source
  vertex, respectively cell, of handle \<open>h\<close>.
\<close>

definition vertex_map :: "('p, 'i, 'j, 'ic) tds \<Rightarrow> handle \<Rightarrow> handle" where
  "vertex_map src h = the (alloc [] (vertex_handles src) h)"

definition cell_map :: "('p, 'i, 'j, 'ic) tds \<Rightarrow> handle \<Rightarrow> handle" where
  "cell_map src h = the (alloc [] (cell_handles src) h)"

text \<open>
  \<open>V\<close> and \<open>F\<close> are an isomorphism of the incidence graphs: bijections between the
  vertices and between the cells under which every source cell has a target cell with the
  corresponding vertices and neighbors, slot by slot.
\<close>

definition isomorphic_via ::
  "(handle \<Rightarrow> handle) \<Rightarrow> (handle \<Rightarrow> handle) \<Rightarrow> ('p, 'i, 'j, 'ic) tds \<Rightarrow> ('q, 'k, 'l, 'jc) tds \<Rightarrow>
   bool" where
  "isomorphic_via V F src tgt \<longleftrightarrow>
     bij_betw V (set (vertex_handles src)) (set (vertex_handles tgt)) \<and>
     bij_betw F (set (cell_handles src)) (set (cell_handles tgt)) \<and>
     (\<forall>(h, c) \<in> set (tds_cells src). \<exists>c'. (F h, c') \<in> set (tds_cells tgt) \<and>
         c_vertices c' = map V (c_vertices c) \<and>
         c_neighbors c' = map (map_option F) (c_neighbors c))"

text \<open>
  Under \<open>V\<close> the infinite vertex of \<open>src\<close> goes to the infinite vertex of \<open>tgt\<close>, which is a
  vertex of \<open>tgt\<close>, and no other vertex of \<open>src\<close> does.
\<close>

definition maps_infinite_to_infinite ::
  "('p, 'i, 'j, 'ic, 'z) triangulation_scheme \<Rightarrow> (handle \<Rightarrow> handle) \<Rightarrow>
   ('q, 'k, 'l, 'jc, 'y) triangulation_scheme \<Rightarrow> bool" where
  "maps_infinite_to_infinite src V tgt \<longleftrightarrow>
     (\<exists>h. tr_infinite src = Some h \<and> tr_infinite tgt = Some (V h) \<and>
        V h \<in> set (vertex_handles (tr_tds tgt)) \<and>
        (\<forall>u \<in> set (vertex_handles (tr_tds src)). u \<noteq> h \<longrightarrow> Some (V u) \<noteq> tr_infinite tgt))"

section \<open>Concrete elements and meshes\<close>

text \<open>
  A mesh of one tetrahedron: the infinite vertex 10 and the finite vertices 11 to 14; the
  cell \<open>20 + k\<close> has all vertices but \<open>10 + k\<close>, so cell 20 is the finite one and cells 21
  to 24 are the infinite ones; the neighbor opposite vertex \<open>h\<close> is the cell that lacks
  \<open>h\<close>.
\<close>

definition simplex_cell :: "handle \<Rightarrow> int \<Rightarrow> (unit, unit) cell" where
  "simplex_cell k sd =
     \<lparr>c_vertices = filter (\<lambda>h. h \<noteq> 10 + k) [10, 11, 12, 13, 14],
      c_neighbors = map (\<lambda>h. Some (h + 10)) (filter (\<lambda>h. h \<noteq> 10 + k) [10, 11, 12, 13, 14]),
      c_subdomain_index = sd, c_info = (), c_input_cell = (), c_time_stamp = int k\<rparr>"

definition plain_vertex :: "int \<Rightarrow> (int, unit) vertex" where
  "plain_vertex x = \<lparr>v_point = x, v_time_stamp = 0, v_dimension = 2, v_info = ()\<rparr>"

definition tetrahedron_tds :: "(int, unit, unit, unit) tds" where
  "tetrahedron_tds =
     \<lparr>tds_vertices = map (\<lambda>h. (h, plain_vertex (int h))) [10, 11, 12, 13, 14],
      tds_cells = map (\<lambda>k. (20 + k, simplex_cell k (if k = 0 then 0 else 1))) [0, 1, 2, 3, 4]\<rparr>"

definition one_tetrahedron :: "(int, unit, unit, unit) triangulation" where
  "one_tetrahedron = \<lparr>tr_tds = tetrahedron_tds, tr_infinite = Some 10\<rparr>"

definition remeshing_tetrahedron ::
  "(int, unit, unit, unit, Default_remeshing_visitor) remeshing_triangulation" where
  "remeshing_tetrahedron =
     \<lparr>tr_tds = tetrahedron_tds, tr_infinite = Some 10, m_visitor = \<lparr>visitor_unit = ()\<rparr>\<rparr>"

text \<open>Targets that hold a vertex before the clone.\<close>

definition used_tds :: "(int, unit, unit, unit) tds" where
  "used_tds = \<lparr>tds_vertices = [(3, plain_vertex 7)], tds_cells = []\<rparr>"

definition used_triangulation :: "(int, unit, unit, unit) triangulation" where
  "used_triangulation = \<lparr>tr_tds = used_tds, tr_infinite = Some 3\<rparr>"

definition used_remeshing_triangulation ::
  "(int, unit, unit, unit, Default_remeshing_visitor) remeshing_triangulation" where
  "used_remeshing_triangulation =
     \<lparr>tr_tds = used_tds, tr_infinite = Some 3, m_visitor = \<lparr>visitor_unit = ()\<rparr>\<rparr>"

text \<open>Elements with distinguishable fields, for the converters.\<close>

definition tagged_cell :: "int \<Rightarrow> int \<Rightarrow> int \<Rightarrow> (int, unit) cell" where
  "tagged_cell sd ui ts =
     \<lparr>c_vertices = [], c_neighbors = [], c_subdomain_index = sd, c_info = ui,
      c_input_cell = (), c_time_stamp = ts\<rparr>"

definition derived_cell :: "int \<Rightarrow> int \<Rightarrow> int \<Rightarrow> (int, (int, unit) cell) cell" where
  "derived_cell sd ui ts =
     \<lparr>c_vertices = [], c_neighbors = [], c_subdomain_index = sd, c_info = ui,
      c_input_cell = tagged_cell 0 0 0, c_time_stamp = ts\<rparr>"

definition tagged_vertex :: "int \<Rightarrow> int \<Rightarrow> int \<Rightarrow> (int, int) vertex" where
  "tagged_vertex d ui ts = \<lparr>v_point = 0, v_time_stamp = ts, v_dimension = d, v_info = ui\<rparr>"

section \<open>Properties of the conversion policy\<close>

lemmas converter_defs =
  internal_Vertex_converter_def internal_Vertex_converter_create_def
  internal_Vertex_converter_update_def
  internal_Cell_converter_def internal_Cell_converter_create_def
  internal_Cell_converter_update_def
  Vertex_converter_def Vertex_converter_create_def Vertex_converter_update_def
  Cell_converter_def Cell_converter_create_def Cell_converter_update_def

text \<open>
  C3, as stated, fails for the preserving variant: its update operation, applied to a
  source cell of subdomain 5 and a target cell of subdomain 0, leaves the target's
  subdomain at 0.
\<close>

theorem cell_converter_subdomain_counterexample:
  "c_subdomain_index (update (Cell_converter (derived_cell 0 0 0)) (tagged_cell 5 1 0)
      (derived_cell 0 0 0))
   \<noteq> c_subdomain_index (tagged_cell 5 1 0)"
  by (simp add: converter_defs derived_cell_def tagged_cell_def)

text \<open>
  C3, amended: for every source cell, the create and the update operation of the fresh
  variant (\<^verbatim>\<open>internal::Cell_converter\<close>) copy the source cell's subdomain tag to the
  target cell. The preserving variant (\<^verbatim>\<open>Cell_converter\<close>) copies the user info and
  stores the source cell as the back-reference; it does not write the subdomain tag, which
  is the default-constructed one after create and the previous one after update.
\<close>

theorem cell_converter_payload:
  "c_subdomain_index (create (internal_Cell_converter c0) c_src) = c_subdomain_index c_src \<and>
   c_subdomain_index (update (internal_Cell_converter c0) c_src c_tgt) = c_subdomain_index c_src \<and>
   create (Cell_converter d0) d_src
     = d0\<lparr>c_info := c_info d_src, c_input_cell := d_src, c_time_stamp := - 1\<rparr> \<and>
   update (Cell_converter d0) d_src d_tgt = d_tgt\<lparr>c_info := c_info d_src, c_input_cell := d_src\<rparr> \<and>
   c_subdomain_index (create (Cell_converter d0) d_src) = c_subdomain_index d0 \<and>
   c_subdomain_index (update (Cell_converter d0) d_src d_tgt) = c_subdomain_index d_tgt"
  by (cases d0; cases d_tgt) (simp add: converter_defs)

text \<open>
  C4, as stated, fails for the update operations: the fresh vertex converter's update,
  applied to a target vertex of time stamp 7, leaves the time stamp at 7, not at the
  unset value \<open>- 1\<close>.
\<close>

theorem update_time_stamp_counterexample:
  "v_time_stamp (update (internal_Vertex_converter id id id (tagged_vertex 0 0 0))
      (tagged_vertex 2 0 0) (tagged_vertex 0 0 7)) \<noteq> - 1"
  by (simp add: converter_defs tagged_vertex_def)

text \<open>
  C4, amended: for every source element, the create operation of every converter variant
  (vertex and cell, fresh and preserving) returns a target element whose time stamp is the
  unset value \<open>- 1\<close>; the update operation of every variant leaves the target element's
  time stamp as it was.
\<close>

theorem create_resets_time_stamp:
  "v_time_stamp (create (internal_Vertex_converter point conv Tgt_point v0) v_src) = - 1 \<and>
   v_time_stamp (create (Vertex_converter conv' w0) w_src) = - 1 \<and>
   c_time_stamp (create (internal_Cell_converter c0) c_src) = - 1 \<and>
   c_time_stamp (create (Cell_converter d0) d_src) = - 1 \<and>
   v_time_stamp (update (internal_Vertex_converter point conv Tgt_point v0) v_src v_tgt)
     = v_time_stamp v_tgt \<and>
   v_time_stamp (update (Vertex_converter conv' w0) w_src w_tgt) = v_time_stamp w_tgt \<and>
   c_time_stamp (update (internal_Cell_converter c0) c_src c_tgt) = c_time_stamp c_tgt \<and>
   c_time_stamp (update (Cell_converter d0) d_src d_tgt) = c_time_stamp d_tgt"
  by (cases d0; cases d_tgt) (simp add: converter_defs)

text \<open>
  C5, as stated, fails: for a source vertex of dimension tag 2 and user info 1, the
  preserving vertex converter creates a target vertex of dimension tag 1 whose user info
  is the default-constructed one, 0.
\<close>

theorem preserving_vertex_counterexample:
  "v_dimension (create (Vertex_converter id (tagged_vertex (- 1) 0 0)) (tagged_vertex 2 1 0))
     \<noteq> v_dimension (tagged_vertex 2 1 0) \<and>
   v_info (create (Vertex_converter id (tagged_vertex (- 1) 0 0)) (tagged_vertex 2 1 0))
     \<noteq> v_info (tagged_vertex 2 1 0)"
  by (simp add: converter_defs tagged_vertex_def)

text \<open>
  C5, amended: for every source vertex, the preserving vertex converter sets the target
  vertex's dimension tag to the source vertex's user info, in create and in update. It
  does not read the source's dimension tag and does not write the target's user info,
  which is the default-constructed one after create and the previous one after update.
\<close>

theorem preserving_vertex_dimension_from_info:
  "v_dimension (create (Vertex_converter conv v0) v_src) = v_info v_src \<and>
   v_dimension (update (Vertex_converter conv v0) v_src v_tgt) = v_info v_src \<and>
   v_info (create (Vertex_converter conv v0) v_src) = v_info v0 \<and>
   v_info (update (Vertex_converter conv v0) v_src v_tgt) = v_info v_tgt \<and>
   create (Vertex_converter conv v0) (v_src\<lparr>v_dimension := d\<rparr>)
     = create (Vertex_converter conv v0) v_src \<and>
   update (Vertex_converter conv v0) (v_src\<lparr>v_dimension := d\<rparr>) v_tgt
     = update (Vertex_converter conv v0) v_src v_tgt"
  by (simp add: converter_defs)

text \<open>
  C6: for every source vertex, the fresh vertex converter's create operation returns a
  target vertex whose dimension tag is 3 and whose user info is the default-constructed
  one; the result is the same whatever the source vertex's user info is.
\<close>

theorem fresh_vertex_create:
  "v_dimension (create (internal_Vertex_converter point conv Tgt_point v0) v_src) = 3 \<and>
   v_info (create (internal_Vertex_converter point conv Tgt_point v0) v_src) = v_info v0 \<and>
   create (internal_Vertex_converter point conv Tgt_point v0) (v_src\<lparr>v_info := x\<rparr>)
     = create (internal_Vertex_converter point conv Tgt_point v0) v_src"
  by (simp add: converter_defs)

text \<open>
  C8: for each of the four converters (vertex and cell, fresh and preserving) and every
  source element, updating a target element twice from the same source element gives the
  same target element as updating it once.
\<close>

theorem update_idempotent:
  "update (internal_Vertex_converter point conv Tgt_point v0) v_src
     (update (internal_Vertex_converter point conv Tgt_point v0) v_src v_tgt)
   = update (internal_Vertex_converter point conv Tgt_point v0) v_src v_tgt \<and>
   update (Vertex_converter conv' w0) w_src (update (Vertex_converter conv' w0) w_src w_tgt)
   = update (Vertex_converter conv' w0) w_src w_tgt \<and>
   update (internal_Cell_converter c0) c_src (update (internal_Cell_converter c0) c_src c_tgt)
   = update (internal_Cell_converter c0) c_src c_tgt \<and>
   update (Cell_converter d0) d_src (update (Cell_converter d0) d_src d_tgt)
   = update (Cell_converter d0) d_src d_tgt"
  by (simp add: converter_defs)

section \<open>Properties of the default visitor\<close>

text \<open>
  C9: the default visitor has the five hooks \<^verbatim>\<open>before_split\<close>, \<^verbatim>\<open>after_split\<close>,
  \<^verbatim>\<open>after_add_cell\<close>, \<^verbatim>\<open>before_flip\<close> and \<^verbatim>\<open>after_flip\<close>, and every call of any of
  them returns the visitor, the triangulation and the other arguments as they were.
\<close>

theorem default_visitor_no_op:
  "before_split (vis, tr, e) = (vis, tr, e) \<and>
   after_split (vis, tr, new_v) = (vis, tr, new_v) \<and>
   after_add_cell (vis, co, cn) = (vis, co, cn) \<and>
   before_flip (vis, c) = (vis, c) \<and>
   after_flip (vis, c) = (vis, c) \<and>
   invoke vis call = (vis, call)"
  by (simp add: before_split_def after_split_def after_add_cell_def before_flip_def
      after_flip_def invoke_def split: hook_call.split)

section \<open>The data structure of the base class\<close>

text \<open>
  C10 fails on the code at \<^verbatim>\<open>Concurrency_tag = Parallel_tag\<close>: the data structure of the
  base class is the same for both tags (it is instantiated without the tag, so with the
  default of \<^verbatim>\<open>Triangulation_data_structure_3\<close>), while the nested typedef
  \<^verbatim>\<open>Tds\<close> differs between the tags. With the sequential default the base class of
  \<^verbatim>\<open>Remeshing_triangulation_3<K, Parallel_tag>\<close> works on the sequential data
  structure and \<^verbatim>\<open>Tds\<close> names the parallel one.
\<close>

theorem base_class_ignores_concurrency_tag:
  "tds_of (base_class tds_default K Parallel_tag Cb Vb)
     = tds_of (base_class tds_default K Sequential_tag Cb Vb) \<and>
   Tds K Parallel_tag Cb Vb \<noteq> Tds K Sequential_tag Cb Vb \<and>
   tds_of (base_class Sequential_tag K Parallel_tag Cb Vb)
     = Triangulation_data_structure_3 (Remeshing_vertex_base K Vb) (Remeshing_cell_base K Cb)
         Sequential_tag \<and>
   Tds K Parallel_tag Cb Vb
     = Triangulation_data_structure_3 (Remeshing_vertex_base K Vb) (Remeshing_cell_base K Cb)
         Parallel_tag \<and>
   tds_of (base_class Sequential_tag K Parallel_tag Cb Vb) \<noteq> Tds K Parallel_tag Cb Vb \<and>
   tds_of (Self K Parallel_tag Cb Vb) = Tds K Parallel_tag Cb Vb"
  by (simp add: base_class_def Tds_def Self_def RVb_def RCb_def)

section \<open>Properties of the clone\<close>

subsection \<open>Handles of the created elements\<close>

lemma fresh_greater: "h \<in> set hs \<Longrightarrow> h < fresh hs"
  by (induction hs) auto

lemma alloc_nth:
  assumes "distinct hs" and "i < length hs"
  shows "alloc used hs (hs ! i) = Some (fresh used + i)"
  using assms unfolding alloc_def by (simp add: map_of_zip_nth)

lemma alloc_the_map:
  assumes "distinct hs"
  shows "map (\<lambda>h. the (alloc used hs h)) hs = [fresh used ..< fresh used + length hs]"
  by (rule nth_equalityI) (simp_all add: alloc_nth [OF assms])

lemma alloc_inj_on:
  assumes "distinct hs"
  shows "inj_on (\<lambda>h. the (alloc used hs h)) (set hs)"
proof -
  have "distinct (map (\<lambda>h. the (alloc used hs h)) hs)"
    by (simp add: alloc_the_map [OF assms])
  then show ?thesis by (simp add: distinct_map)
qed

lemma alloc_Some:
  assumes "distinct hs" and "h \<in> set hs"
  shows "\<exists>k. alloc used hs h = Some k \<and> fresh used \<le> k \<and> k < fresh used + length hs"
proof -
  from assms(2) obtain i where "i < length hs" "hs ! i = h"
    by (auto simp: in_set_conv_nth)
  with alloc_nth [OF assms(1), of i used] show ?thesis by auto
qed

lemma alloc_not_used:
  assumes "distinct hs" and "h \<in> set hs"
  shows "the (alloc used hs h) \<notin> set used"
proof
  assume "the (alloc used hs h) \<in> set used"
  then have "the (alloc used hs h) < fresh used" by (rule fresh_greater)
  moreover from alloc_Some [OF assms, of used] have "fresh used \<le> the (alloc used hs h)"
    by auto
  ultimately show False by simp
qed

subsection \<open>The copy of a well-formed source\<close>

lemma well_formed_distinct:
  "well_formed src vert \<Longrightarrow> distinct (vertex_handles src) \<and> distinct (cell_handles src)"
  by (simp add: well_formed_def)

lemma well_formed_infinite:
  "well_formed src vert \<Longrightarrow> \<exists>h. vert = Some h \<and> h \<in> set (vertex_handles src)"
  by (auto simp: well_formed_def split: option.splits)

lemma empty_tds_simps [simp]:
  "vertex_handles empty_tds = []" "cell_handles empty_tds = []"
  "tds_vertices empty_tds = []" "tds_cells empty_tds = []"
  by (simp_all add: empty_tds_def vertex_handles_def cell_handles_def)

lemma clear_tds [simp]: "tr_tds (clear t) = empty_tds"
  by (simp add: clear_def)

lemma copy_tds_ill_formed:
  "\<not> well_formed src vert \<Longrightarrow> copy_tds cv cc src vert tgt = Inl Structural_inconsistency"
  by (simp add: copy_tds_def)

lemma copy_tds_well_formed:
  assumes "well_formed src vert"
  shows "copy_tds cv cc src vert tgt =
    Inr (Option.bind vert (alloc (vertex_handles tgt) (vertex_handles src)),
         tgt\<lparr>tds_vertices := tds_vertices tgt @
                map (\<lambda>(h, v). (the (alloc (vertex_handles tgt) (vertex_handles src) h), create cv v))
                  (tds_vertices src),
             tds_cells := tds_cells tgt @
                map (\<lambda>(h, c). (the (alloc (cell_handles tgt) (cell_handles src) h),
                  (create cc c)\<lparr>c_vertices :=
                       map (\<lambda>u. the (alloc (vertex_handles tgt) (vertex_handles src) u)) (c_vertices c),
                     c_neighbors :=
                       map (map_option (\<lambda>n. the (alloc (cell_handles tgt) (cell_handles src) n)))
                         (c_neighbors c)\<rparr>))
                  (tds_cells src)\<rparr>)"
  using assms by (simp add: copy_tds_def Let_def)

lemma copy_tds_succeeds:
  assumes "well_formed src vert"
  shows "\<exists>r tgt. copy_tds cv cc src vert empty_tds = Inr (r, tgt)"
  by (simp add: copy_tds_well_formed [OF assms])

lemma copied_isomorphic:
  assumes wf: "well_formed src vert"
    and ok: "copy_tds cv cc src vert empty_tds = Inr (r, tgt)"
  shows "isomorphic_via (vertex_map src) (cell_map src) src tgt"
proof -
  let ?V = "vertex_map src"
  let ?F = "cell_map src"
  from wf have dv: "distinct (vertex_handles src)" and dc: "distinct (cell_handles src)"
    by (simp_all add: well_formed_distinct)
  from ok have tv: "tds_vertices tgt = map (\<lambda>(h, v). (?V h, create cv v)) (tds_vertices src)"
    and tc: "tds_cells tgt = map (\<lambda>(h, c). (?F h,
                  (create cc c)\<lparr>c_vertices := map ?V (c_vertices c),
                     c_neighbors := map (map_option ?F) (c_neighbors c)\<rparr>)) (tds_cells src)"
    by (auto simp: copy_tds_well_formed [OF wf] vertex_map_def [abs_def] cell_map_def [abs_def])
  have vh: "vertex_handles tgt = map ?V (vertex_handles src)"
    by (simp add: vertex_handles_def tv case_prod_unfold comp_def)
  have ch: "cell_handles tgt = map ?F (cell_handles src)"
    by (simp add: cell_handles_def tc case_prod_unfold comp_def)
  have "inj_on ?V (set (vertex_handles src))"
    unfolding vertex_map_def by (rule alloc_inj_on [OF dv])
  then have bv: "bij_betw ?V (set (vertex_handles src)) (set (vertex_handles tgt))"
    by (simp add: bij_betw_def vh)
  have "inj_on ?F (set (cell_handles src))"
    unfolding cell_map_def by (rule alloc_inj_on [OF dc])
  then have bc: "bij_betw ?F (set (cell_handles src)) (set (cell_handles tgt))"
    by (simp add: bij_betw_def ch)
  have "\<exists>c'. (?F h, c') \<in> set (tds_cells tgt) \<and> c_vertices c' = map ?V (c_vertices c) \<and>
          c_neighbors c' = map (map_option ?F) (c_neighbors c)"
    if "(h, c) \<in> set (tds_cells src)" for h c
  proof -
    let ?c' = "(create cc c)\<lparr>c_vertices := map ?V (c_vertices c),
                     c_neighbors := map (map_option ?F) (c_neighbors c)\<rparr>"
    from that have "(?F h, ?c') \<in> set (tds_cells tgt)"
      unfolding tc by (force simp: image_iff)
    then show ?thesis by (intro exI [of _ ?c']) simp
  qed
  with bv bc show ?thesis unfolding isomorphic_via_def by blast
qed

lemma copied_handles:
  assumes wf: "well_formed src vert"
    and ok: "copy_tds cv cc src vert empty_tds = Inr (r, tgt)"
  shows "vertex_handles tgt = [0 ..< length (tds_vertices src)]"
    and "cell_handles tgt = [0 ..< length (tds_cells src)]"
proof -
  from wf have dv: "distinct (vertex_handles src)" and dc: "distinct (cell_handles src)"
    by (simp_all add: well_formed_distinct)
  from ok have "vertex_handles tgt
      = map (\<lambda>h. the (alloc [] (vertex_handles src) h)) (vertex_handles src)"
    by (auto simp: copy_tds_well_formed [OF wf] vertex_handles_def case_prod_unfold comp_def)
  also have "\<dots> = [0 ..< length (tds_vertices src)]"
    by (simp add: alloc_the_map [OF dv]) (simp add: vertex_handles_def)
  finally show "vertex_handles tgt = [0 ..< length (tds_vertices src)]" .
  from ok have "cell_handles tgt
      = map (\<lambda>h. the (alloc [] (cell_handles src) h)) (cell_handles src)"
    by (auto simp: copy_tds_well_formed [OF wf] cell_handles_def case_prod_unfold comp_def)
  also have "\<dots> = [0 ..< length (tds_cells src)]"
    by (simp add: alloc_the_map [OF dc]) (simp add: cell_handles_def)
  finally show "cell_handles tgt = [0 ..< length (tds_cells src)]" .
qed

lemma copied_infinite:
  assumes wf: "well_formed (tr_tds src) (tr_infinite src)"
    and ok: "copy_tds cv cc (tr_tds src) (tr_infinite src) empty_tds = Inr (r, tds')"
  shows "maps_infinite_to_infinite src (vertex_map (tr_tds src))
           (t\<lparr>tr_tds := tds', tr_infinite := r\<rparr>)"
proof -
  let ?hs = "vertex_handles (tr_tds src)"
  from wf have dv: "distinct ?hs" by (simp add: well_formed_distinct)
  from well_formed_infinite [OF wf] obtain h where h: "tr_infinite src = Some h" "h \<in> set ?hs"
    by blast
  from alloc_Some [OF dv h(2), of "[]"] obtain k where k: "alloc [] ?hs h = Some k" by blast
  from ok copy_tds_well_formed [OF wf, of cv cc empty_tds]
  have r: "r = Some (vertex_map (tr_tds src) h)"
    by (simp add: h(1) k vertex_map_def)
  from copied_isomorphic [OF wf ok]
  have bij: "bij_betw (vertex_map (tr_tds src)) (set ?hs) (set (vertex_handles tds'))"
    by (simp add: isomorphic_via_def)
  from bij h(2) have mem: "vertex_map (tr_tds src) h \<in> set (vertex_handles tds')"
    by (auto simp: bij_betw_def)
  from bij have inj: "inj_on (vertex_map (tr_tds src)) (set ?hs)" by (simp add: bij_betw_def)
  have "vertex_map (tr_tds src) u \<noteq> vertex_map (tr_tds src) h" if "u \<in> set ?hs" "u \<noteq> h" for u
    using inj that h(2) by (auto dest: inj_onD)
  with h(1) r mem show ?thesis
    unfolding maps_infinite_to_infinite_def by (intro exI [of _ h]) simp
qed

subsection \<open>The two clone functions\<close>

lemma build_remeshing_triangulation_unfold:
  "build_remeshing_triangulation point conv Tgt_point vd cd tr rt =
     (case copy_tds (internal_Vertex_converter point conv Tgt_point vd) (internal_Cell_converter cd)
             (tr_tds tr) (tr_infinite tr) empty_tds of
        Inl e \<Rightarrow> (Some e, clear rt)
      | Inr (h, tds') \<Rightarrow> (None, rt\<lparr>tr_tds := tds', tr_infinite := h\<rparr>))"
  by (simp add: build_remeshing_triangulation_def Let_def clear_def set_infinite_vertex_def
      split: sum.splits)

lemma build_from_remeshing_triangulation_unfold:
  "build_from_remeshing_triangulation point conv Tgt_point vd cd rt tr =
     (case copy_tds (internal_Vertex_converter point conv Tgt_point vd) (internal_Cell_converter cd)
             (tr_tds rt) (tr_infinite rt) empty_tds of
        Inl e \<Rightarrow> (Some e, clear tr)
      | Inr (h, tds') \<Rightarrow> (None, tr\<lparr>tr_tds := tds', tr_infinite := h\<rparr>))"
  by (simp add: build_from_remeshing_triangulation_def Let_def clear_def set_infinite_vertex_def
      split: sum.splits)

lemma tetrahedron_well_formed: "well_formed tetrahedron_tds (Some 10)"
  by code_simp

text \<open>
  C1: for every well-formed source triangulation, \<^verbatim>\<open>build_remeshing_triangulation\<close>
  succeeds and leaves a target with as many vertices and as many cells as the source,
  each under a handle of its own, and the correspondence of the clone is an isomorphism of
  the incidence graphs of source and target.
\<close>

theorem clone_isomorphic:
  assumes "well_formed (tr_tds tr) (tr_infinite tr)"
  shows "fst (build_remeshing_triangulation point conv Tgt_point vd cd tr remeshing_tr) = None \<and>
    length (tds_vertices (tr_tds (snd
        (build_remeshing_triangulation point conv Tgt_point vd cd tr remeshing_tr))))
      = length (tds_vertices (tr_tds tr)) \<and>
    length (tds_cells (tr_tds (snd
        (build_remeshing_triangulation point conv Tgt_point vd cd tr remeshing_tr))))
      = length (tds_cells (tr_tds tr)) \<and>
    distinct (vertex_handles (tr_tds (snd
        (build_remeshing_triangulation point conv Tgt_point vd cd tr remeshing_tr)))) \<and>
    distinct (cell_handles (tr_tds (snd
        (build_remeshing_triangulation point conv Tgt_point vd cd tr remeshing_tr)))) \<and>
    isomorphic_via (vertex_map (tr_tds tr)) (cell_map (tr_tds tr)) (tr_tds tr)
      (tr_tds (snd (build_remeshing_triangulation point conv Tgt_point vd cd tr remeshing_tr)))"
proof -
  let ?cv = "internal_Vertex_converter point conv Tgt_point vd"
  let ?cc = "internal_Cell_converter cd"
  from copy_tds_succeeds [OF assms] obtain r tds'
    where ok: "copy_tds ?cv ?cc (tr_tds tr) (tr_infinite tr) empty_tds = Inr (r, tds')"
    by blast
  have res: "build_remeshing_triangulation point conv Tgt_point vd cd tr remeshing_tr =
      (None, remeshing_tr\<lparr>tr_tds := tds', tr_infinite := r\<rparr>)"
    by (simp add: build_remeshing_triangulation_unfold ok)
  have vh: "vertex_handles tds' = [0 ..< length (tds_vertices (tr_tds tr))]"
    and ch: "cell_handles tds' = [0 ..< length (tds_cells (tr_tds tr))]"
    using copied_handles [OF assms ok] by simp_all
  have "length (vertex_handles tds') = length (tds_vertices (tr_tds tr))"
    by (simp add: vh)
  then have nv: "length (tds_vertices tds') = length (tds_vertices (tr_tds tr))"
    by (simp add: vertex_handles_def)
  have "length (cell_handles tds') = length (tds_cells (tr_tds tr))"
    by (simp add: ch)
  then have nc: "length (tds_cells tds') = length (tds_cells (tr_tds tr))"
    by (simp add: cell_handles_def)
  have dv: "distinct (vertex_handles tds')" by (simp add: vh)
  have dc: "distinct (cell_handles tds')" by (simp add: ch)
  from copied_isomorphic [OF assms ok] nv nc dv dc show ?thesis
    by (simp add: res)
qed

text \<open>
  Witness of C1: the mesh of one tetrahedron (5 vertices, 5 cells) is well formed, and
  its clone into a target that held a vertex has 5 vertices and 5 cells and is isomorphic
  to it.
\<close>

theorem clone_isomorphic_witness:
  "well_formed (tr_tds one_tetrahedron) (tr_infinite one_tetrahedron) \<and>
   fst (build_remeshing_triangulation id id id (plain_vertex 0) (simplex_cell 0 0) one_tetrahedron
          used_remeshing_triangulation) = None \<and>
   length (tds_vertices (tr_tds (snd (build_remeshing_triangulation id id id (plain_vertex 0)
          (simplex_cell 0 0) one_tetrahedron used_remeshing_triangulation)))) = 5 \<and>
   length (tds_cells (tr_tds (snd (build_remeshing_triangulation id id id (plain_vertex 0)
          (simplex_cell 0 0) one_tetrahedron used_remeshing_triangulation)))) = 5 \<and>
   isomorphic_via (vertex_map (tr_tds one_tetrahedron)) (cell_map (tr_tds one_tetrahedron))
     (tr_tds one_tetrahedron)
     (tr_tds (snd (build_remeshing_triangulation id id id (plain_vertex 0) (simplex_cell 0 0)
        one_tetrahedron used_remeshing_triangulation)))"
proof -
  have wf: "well_formed (tr_tds one_tetrahedron) (tr_infinite one_tetrahedron)"
    by (simp add: one_tetrahedron_def tetrahedron_well_formed)
  have n: "length (tds_vertices (tr_tds one_tetrahedron)) = 5"
    "length (tds_cells (tr_tds one_tetrahedron)) = 5"
    by (simp_all add: one_tetrahedron_def tetrahedron_tds_def)
  from clone_isomorphic [OF wf, of id id id "plain_vertex 0" "simplex_cell 0 0"
      used_remeshing_triangulation] wf n
  show ?thesis by simp
qed

text \<open>
  C2: for every well-formed source, each of the two clone functions makes the vertex that
  corresponds to the source's infinite vertex the infinite vertex of the target; it is a
  vertex of the target, and no other source vertex corresponds to it.
\<close>

theorem infinite_vertex_preserved:
  assumes "well_formed (tr_tds tr) (tr_infinite tr)"
    and "well_formed (tr_tds rs) (tr_infinite rs)"
  shows "maps_infinite_to_infinite tr (vertex_map (tr_tds tr))
           (snd (build_remeshing_triangulation point conv Tgt_point vd cd tr remeshing_tr)) \<and>
         maps_infinite_to_infinite rs (vertex_map (tr_tds rs))
           (snd (build_from_remeshing_triangulation point' conv' Tgt_point' vd' cd' rs tr'))"
proof -
  let ?cv = "internal_Vertex_converter point conv Tgt_point vd"
  let ?cc = "internal_Cell_converter cd"
  let ?cv' = "internal_Vertex_converter point' conv' Tgt_point' vd'"
  let ?cc' = "internal_Cell_converter cd'"
  from copy_tds_succeeds [OF assms(1)] obtain r tds'
    where ok: "copy_tds ?cv ?cc (tr_tds tr) (tr_infinite tr) empty_tds = Inr (r, tds')"
    by blast
  from copy_tds_succeeds [OF assms(2)] obtain r' tds''
    where ok': "copy_tds ?cv' ?cc' (tr_tds rs) (tr_infinite rs) empty_tds = Inr (r', tds'')"
    by blast
  have "snd (build_remeshing_triangulation point conv Tgt_point vd cd tr remeshing_tr) =
      remeshing_tr\<lparr>tr_tds := tds', tr_infinite := r\<rparr>"
    by (simp add: build_remeshing_triangulation_unfold ok)
  moreover have "snd (build_from_remeshing_triangulation point' conv' Tgt_point' vd' cd' rs tr') =
      tr'\<lparr>tr_tds := tds'', tr_infinite := r'\<rparr>"
    by (simp add: build_from_remeshing_triangulation_unfold ok')
  ultimately show ?thesis
    using copied_infinite [OF assms(1) ok, of remeshing_tr]
      copied_infinite [OF assms(2) ok', of tr'] by simp
qed

text \<open>
  Witness of C2: the mesh of one tetrahedron, as a plain and as a remeshing
  triangulation, cloned in either direction into a target that held a vertex.
\<close>

theorem infinite_vertex_preserved_witness:
  "well_formed (tr_tds one_tetrahedron) (tr_infinite one_tetrahedron) \<and>
   well_formed (tr_tds remeshing_tetrahedron) (tr_infinite remeshing_tetrahedron) \<and>
   maps_infinite_to_infinite one_tetrahedron (vertex_map (tr_tds one_tetrahedron))
     (snd (build_remeshing_triangulation id id id (plain_vertex 0) (simplex_cell 0 0)
        one_tetrahedron used_remeshing_triangulation)) \<and>
   maps_infinite_to_infinite remeshing_tetrahedron (vertex_map (tr_tds remeshing_tetrahedron))
     (snd (build_from_remeshing_triangulation id id id (plain_vertex 0) (simplex_cell 0 0)
        remeshing_tetrahedron used_triangulation))"
proof -
  have wf: "well_formed (tr_tds one_tetrahedron) (tr_infinite one_tetrahedron)"
    by (simp add: one_tetrahedron_def tetrahedron_well_formed)
  have wf': "well_formed (tr_tds remeshing_tetrahedron) (tr_infinite remeshing_tetrahedron)"
    by (simp add: remeshing_tetrahedron_def tetrahedron_well_formed)
  from infinite_vertex_preserved [OF wf wf', of id id id "plain_vertex 0" "simplex_cell 0 0"
      used_remeshing_triangulation id id id "plain_vertex 0" "simplex_cell 0 0"
      used_triangulation] wf wf'
  show ?thesis by simp
qed

text \<open>
  C7: each of the two clone functions clears its target first. The cleared target has no
  vertex and no cell, the copy works on the data structure of the cleared target, and so
  the outcome does not depend on the vertices, the cells and the infinite vertex that the
  target held before the call.
\<close>

theorem target_cleared_first:
  "tds_vertices (tr_tds (clear rt)) = [] \<and> tds_cells (tr_tds (clear rt)) = [] \<and>
   tds_vertices (tr_tds (clear t)) = [] \<and> tds_cells (tr_tds (clear t)) = [] \<and>
   build_remeshing_triangulation point conv Tgt_point vd cd tr rt =
     (case copy_tds (internal_Vertex_converter point conv Tgt_point vd) (internal_Cell_converter cd)
             (tr_tds tr) (tr_infinite tr) (tr_tds (clear rt)) of
        Inl e \<Rightarrow> (Some e, clear rt)
      | Inr (h, tds') \<Rightarrow> (None, rt\<lparr>tr_tds := tds', tr_infinite := h\<rparr>)) \<and>
   build_from_remeshing_triangulation point' conv' Tgt_point' vd' cd' rs t =
     (case copy_tds (internal_Vertex_converter point' conv' Tgt_point' vd')
             (internal_Cell_converter cd') (tr_tds rs) (tr_infinite rs) (tr_tds (clear t)) of
        Inl e \<Rightarrow> (Some e, clear t)
      | Inr (h, tds') \<Rightarrow> (None, t\<lparr>tr_tds := tds', tr_infinite := h\<rparr>)) \<and>
   build_remeshing_triangulation point conv Tgt_point vd cd tr (rt\<lparr>tr_tds := s, tr_infinite := i\<rparr>) =
     build_remeshing_triangulation point conv Tgt_point vd cd tr rt \<and>
   build_from_remeshing_triangulation point' conv' Tgt_point' vd' cd' rs
       (t\<lparr>tr_tds := s', tr_infinite := i'\<rparr>) =
     build_from_remeshing_triangulation point' conv' Tgt_point' vd' cd' rs t"
  by (simp add: build_remeshing_triangulation_unfold build_from_remeshing_triangulation_unfold
      clear_def split: sum.splits)

text \<open>
  Witness of C7: cloning the one-tetrahedron mesh into a target that holds a vertex gives
  the same outcome as cloning it into the emptied target, in both directions.
\<close>

theorem target_cleared_first_witness:
  "tds_vertices (tr_tds (clear used_remeshing_triangulation)) = [] \<and>
   tds_cells (tr_tds (clear used_remeshing_triangulation)) = [] \<and>
   build_remeshing_triangulation id id id (plain_vertex 0) (simplex_cell 0 0) one_tetrahedron
     used_remeshing_triangulation =
   build_remeshing_triangulation id id id (plain_vertex 0) (simplex_cell 0 0) one_tetrahedron
     (clear used_remeshing_triangulation) \<and>
   build_from_remeshing_triangulation id id id (plain_vertex 0) (simplex_cell 0 0)
     remeshing_tetrahedron used_triangulation =
   build_from_remeshing_triangulation id id id (plain_vertex 0) (simplex_cell 0 0)
     remeshing_tetrahedron (clear used_triangulation)"
  using target_cleared_first [where rt = used_remeshing_triangulation and t = used_triangulation
      and point = id and conv = id and Tgt_point = id and vd = "plain_vertex 0"
      and cd = "simplex_cell 0 0" and tr = one_tetrahedron
      and point' = id and conv' = id and Tgt_point' = id and vd' = "plain_vertex 0"
      and cd' = "simplex_cell 0 0" and rs = remeshing_tetrahedron
      and s = empty_tds and i = None and s' = empty_tds and i' = None]
  by (simp add: clear_def)


end
